theory Spec2Isabelle
  imports Main
begin

section \<open>The relay bot: data model\<close>

text \<open>
  The bot keeps four collections in a document store: \<open>users\<close>, \<open>settings\<close>,
  \<open>cooldown\<close> and \<open>sent_messages\<close>. The store is embedded as a record that every
  operation takes and returns. \<open>users\<close> and \<open>sent_messages\<close> are iterated by the code
  (\<open>find()\<close>), so they are lists in insertion order and \<open>find_one\<close> is the first
  match; \<open>settings\<close> and \<open>cooldown\<close> are only ever read and upserted by \<open>user_id\<close>, so
  they are maps from the user id.

  Timestamps (\<open>datetime\<close>) are integers counting microseconds since the epoch, the
  resolution of Python's \<open>datetime\<close>; \<open>total_seconds() < 60\<close> is then
  \<open>< 60000000\<close>. The store keeps a datetime in whole milliseconds: what is written is
  cut down to the millisecond (\<open>to_store\<close>), and that is what is read back.

  Python strings are lists of code points (\<open>py_str\<close>); \<open>lit\<close> turns a literal of the
  source into one.

  Ids that come from Telegram (users, chats, messages, and the ids the transport returns
  for copies) are taken to lie within the 8-byte integers the store accepts; the id
  typed after \<open>/admin\<close> or \<open>/vip\<close> is checked. \<open>message.reply\<close> is taken to succeed.
\<close>

type_synonym py_str = "nat list"

definition lit :: "string \<Rightarrow> py_str" where
  "lit s = map of_char s"

record user_doc =
  user_id :: int
  admin :: bool
  vip :: bool

text \<open>One document of \<open>sent_messages\<close> (the spec's RelayRecord).\<close>

record sent_doc =
  sender_id :: int
  sender_message_id :: int
  receiver_id :: int
  receiver_message_id :: int
  original_message_id :: int

record db =
  users :: "user_doc list"
  settings :: "int \<rightharpoonup> bool"
  cooldown :: "int \<rightharpoonup> int"
  sent_messages :: "sent_doc list"

definition seconds :: "int \<Rightarrow> int" where
  "seconds n = n * 1000000"

definition days :: "int \<Rightarrow> int" where
  "days n = n * 86400 * 1000000"

text \<open>The codec of the store: a datetime is written as whole milliseconds, rounded
  down.\<close>

definition to_store :: "int \<Rightarrow> int" where
  "to_store t = (t div 1000) * 1000"

text \<open>\<open>datetime.min\<close> and \<open>datetime.max\<close>: the first microsecond of year 1 and the last
  of year 9999. Adding a \<open>timedelta\<close> that leaves this range raises \<open>OverflowError\<close>.\<close>

definition datetime_min :: int where
  "datetime_min = - 62135596800000000"

definition datetime_max :: int where
  "datetime_max = 253402300799999999"

text \<open>The integers the store accepts (8 bytes, signed).\<close>

definition int64_ok :: "int \<Rightarrow> bool" where
  "int64_ok n = (- 9223372036854775808 \<le> n \<and> n \<le> 9223372036854775807)"

subsection \<open>Incoming messages\<close>

record replied_message =
  replied_message_id :: int
  replied_is_bot :: bool

text \<open>
  \<open>msg_args\<close> is what \<open>message.get_args()\<close> returns: the text after the command.
\<close>

record message =
  from_user_id :: int
  from_username :: "py_str option"
  message_id :: int
  reply_to_message :: "replied_message option"
  msg_text :: "py_str option"
  msg_args :: py_str

subsection \<open>The transport and what a handler does to the outside\<close>

text \<open>
  A transport call either returns or raises \<open>BotBlocked\<close>, \<open>UserDeactivated\<close> or some
  other exception. What it does for a given request is not decided by this program, so
  the transport is a parameter of the model.
\<close>

datatype 'a transport_result = Ok 'a | BotBlocked | UserDeactivated | OtherError

text \<open>
  What \<open>get_sent_message_id\<close> returns: \<open>None\<close>, the \<open>receiver_message_id\<close> of the
  document found, or the whole document.
\<close>

datatype lookup = LNone | LId int | LDoc sent_doc

record copy_request =
  chat_id :: int
  from_chat_id :: int
  copy_message_id :: int
  reply_markup :: "py_str option"
  reply_to_message_id :: lookup

record edit_request =
  edit_chat_id :: int
  edit_message_id :: int
  edit_text :: py_str
  edit_reply_markup :: "py_str option"

text \<open>
  \<open>admin_id\<close> comes from the configuration module, which is not part of the sources; it
  is a parameter too. \<open>delete_message env chat mid\<close> is \<open>True\<close> when the transport's
  delete returns and \<open>False\<close> when it raises.

  \<open>unicode_isspace\<close> and \<open>unicode_todecimal\<close> are the tables of the Unicode database of
  the Python runtime that \<open>int\<close> consults for code points from 127 on: whether the code
  point is white space, and its value as a decimal digit (below 10) if it is one.
\<close>

record env =
  admin_id :: int
  copy_message :: "copy_request \<Rightarrow> int transport_result"
  edit_message_text :: "edit_request \<Rightarrow> unit transport_result"
  delete_message :: "int \<Rightarrow> int \<Rightarrow> bool"
  unicode_isspace :: "nat \<Rightarrow> bool"
  unicode_todecimal :: "nat \<Rightarrow> nat option"

text \<open>
  The replies of the bot, one constructor per string literal of the source:
  \<^item> \<open>Done\<close>: ``Done!'' (\<open>/admin\<close>, \<open>/vip\<close>);
  \<^item> \<open>NoRights\<close>: ``You have no rights to run this command.'';
  \<^item> \<open>Welcome\<close>: the greeting of \<open>/start\<close>;
  \<^item> \<open>SentTo n\<close>: ``Your message was sent to n users in t seconds!'' (the elapsed
    wall-clock time \<open>t\<close> is left out of the model);
  \<^item> \<open>NoRightsDelete\<close>: ``You have no rights to delete messages.'';
  \<^item> \<open>Deleted\<close>: ``The message was deleted for all users.'';
  \<^item> \<open>NoRightsBan\<close>, \<open>NoRightsUnban\<close>: ``You have no rights to (un)block the user.'';
  \<^item> \<open>Banned u\<close>, \<open>Unbanned u\<close>: ``The user was (un)blocked! Id: u'';
  \<^item> \<open>WentWrong\<close>: ``Something went wrong'';
  \<^item> \<open>PleaseWait\<close>: ``Please wait 1 minute before sending the next message.''.
\<close>

datatype reply_text =
    Done | NoRights | Welcome | SentTo nat
  | NoRightsDelete | Deleted
  | NoRightsBan | Banned int | NoRightsUnban | Unbanned int
  | WentWrong | PleaseWait

text \<open>
  What a handler does that is visible outside the store: a reply to the issuer
  (\<open>message.reply\<close>), a \<open>bot.delete_message\<close> call, a logged exception.
\<close>

datatype action = Reply reply_text | DeleteMessage int int | LogException

datatype py_error = TypeError | ValueError | OverflowError

text \<open>
  A handler either runs to its end or raises; the store and the actions at that moment
  are kept in both cases, since writes made before an exception stay.
\<close>

datatype outcome = Handled db "action list" | Faulted py_error db "action list"

fun outcome_db :: "outcome \<Rightarrow> db" where
  "outcome_db (Handled s acts) = s"
| "outcome_db (Faulted e s acts) = s"

fun outcome_actions :: "outcome \<Rightarrow> action list" where
  "outcome_actions (Handled s acts) = acts"
| "outcome_actions (Faulted e s acts) = acts"

section \<open>User directory\<close>

definition find_one_user :: "int \<Rightarrow> db \<Rightarrow> user_doc option" where
  "find_one_user uid s = find (\<lambda>u. user_id u = uid) (users s)"

text \<open>\<open>update_one(..., upsert=True)\<close>: the first matching document is set, or one is
  inserted.\<close>

fun upsert_user :: "user_doc \<Rightarrow> user_doc list \<Rightarrow> user_doc list" where
  "upsert_user d [] = [d]"
| "upsert_user d (u # us) =
     (if user_id u = user_id d then d # us else u # upsert_user d us)"

fun delete_one_user :: "int \<Rightarrow> user_doc list \<Rightarrow> user_doc list" where
  "delete_one_user uid [] = []"
| "delete_one_user uid (u # us) =
     (if user_id u = uid then us else u # delete_one_user uid us)"

definition save_user :: "int \<Rightarrow> bool \<Rightarrow> bool \<Rightarrow> db \<Rightarrow> db" where
  "save_user uid a v s =
     s\<lparr>users := upsert_user \<lparr>user_id = uid, admin = a, vip = v\<rparr> (users s)\<rparr>"

definition is_admin :: "int \<Rightarrow> db \<Rightarrow> bool" where
  "is_admin uid s = (case find_one_user uid s of Some u \<Rightarrow> admin u | None \<Rightarrow> False)"

definition is_vip :: "int \<Rightarrow> db \<Rightarrow> bool" where
  "is_vip uid s = (case find_one_user uid s of Some u \<Rightarrow> vip u | None \<Rightarrow> False)"

section \<open>Settings and cooldown\<close>

text \<open>\<open>get_settings\<close> returns the \<open>show_nickname_inline\<close> flag and inserts the default
  document when there is none.\<close>

definition get_settings :: "int \<Rightarrow> db \<Rightarrow> bool \<times> db" where
  "get_settings uid s =
     (case settings s uid of
        None \<Rightarrow> (False, s\<lparr>settings := (settings s)(uid \<mapsto> False)\<rparr>)
      | Some b \<Rightarrow> (b, s))"

definition cooldown_check :: "int \<Rightarrow> int \<Rightarrow> db \<Rightarrow> bool" where
  "cooldown_check now uid s =
     (case cooldown s uid of
        Some sent_at \<Rightarrow> if now - sent_at < seconds 60 then False else True
      | None \<Rightarrow> True)"

definition update_cooldown :: "int \<Rightarrow> int \<Rightarrow> db \<Rightarrow> db" where
  "update_cooldown now uid s = s\<lparr>cooldown := (cooldown s)(uid \<mapsto> to_store now)\<rparr>"

section \<open>The ledger of sent messages\<close>

definition save_sent_message :: "int \<Rightarrow> int \<Rightarrow> int \<Rightarrow> int \<Rightarrow> int \<Rightarrow> db \<Rightarrow> db" where
  "save_sent_message sid smid rid rmid omid s =
     s\<lparr>sent_messages := sent_messages s @
        [\<lparr>sender_id = sid, sender_message_id = smid, receiver_id = rid,
          receiver_message_id = rmid, original_message_id = omid\<rparr>]\<rparr>"

definition get_sent_messages :: "int \<Rightarrow> int \<Rightarrow> db \<Rightarrow> sent_doc list" where
  "get_sent_messages sid smid s =
     take 10000 (filter (\<lambda>d. sender_id d = sid \<and> original_message_id d = smid)
                        (sent_messages s))"

text \<open>
  Python's truth test on an optional integer: \<open>None\<close> and \<open>0\<close> are false.
\<close>

fun truthy :: "int option \<Rightarrow> bool" where
  "truthy None = False"
| "truthy (Some n) = (n \<noteq> 0)"

definition get_sent_message_id :: "int option \<Rightarrow> int option \<Rightarrow> int option \<Rightarrow> db \<Rightarrow> lookup" where
  "get_sent_message_id smid omid rid s =
     (if truthy smid then
        (if truthy rid then
           (case find (\<lambda>d. Some (sender_message_id d) = smid \<and> Some (receiver_id d) = rid)
                      (sent_messages s) of
              Some d \<Rightarrow> LId (receiver_message_id d) | None \<Rightarrow> LNone)
         else
           (case find (\<lambda>d. Some (sender_message_id d) = smid) (sent_messages s) of
              Some d \<Rightarrow> LDoc d | None \<Rightarrow> LNone))
      else if truthy omid then
        (if truthy rid then
           (case find (\<lambda>d. Some (receiver_id d) = rid \<and> Some (original_message_id d) = omid)
                      (sent_messages s) of
              Some d \<Rightarrow> LId (receiver_message_id d) | None \<Rightarrow> LNone)
         else
           (case find (\<lambda>d. Some (original_message_id d) = omid) (sent_messages s) of
              Some d \<Rightarrow> LDoc d | None \<Rightarrow> LNone))
      else LNone)"

definition delete_sent_messages :: "int \<Rightarrow> int \<Rightarrow> db \<Rightarrow> db" where
  "delete_sent_messages sid smid s =
     s\<lparr>sent_messages :=
        filter (\<lambda>d. \<not> (sender_id d = sid \<and> sender_message_id d = smid)) (sent_messages s)\<rparr>"

section \<open>Strings and numbers\<close>

text \<open>
  \<open>str(n)\<close> for an integer, used for the nickname \<open>"id" + str(id)\<close>.
\<close>

fun show_nat :: "nat \<Rightarrow> py_str" where
  "show_nat n = (if n < 10 then [48 + n] else show_nat (n div 10) @ [48 + n mod 10])"

definition str_int :: "int \<Rightarrow> py_str" where
  "str_int i = (if i < 0 then 45 # show_nat (nat (- i)) else show_nat (nat i))"

text \<open>
  \<open>int(s)\<close> for a string, as CPython computes it. A string with a code point from 128
  on is first rewritten: code points below 127 stay, a Unicode space becomes a blank, a
  Unicode decimal digit becomes its ASCII digit, and at anything else the string is cut
  off with a question mark. A string that is all ASCII is taken as it is.
\<close>

fun transform_decimal_and_space :: "env \<Rightarrow> py_str \<Rightarrow> py_str" where
  "transform_decimal_and_space env [] = []"
| "transform_decimal_and_space env (c # cs) =
     (if c < 127 then c # transform_decimal_and_space env cs
      else if unicode_isspace env c then 32 # transform_decimal_and_space env cs
      else (case unicode_todecimal env c of
              None \<Rightarrow> [63]
            | Some d \<Rightarrow> (48 + d) # transform_decimal_and_space env cs))"

text \<open>
  The ASCII string is then read: white space (blank, tab, line feed, vertical tab, form
  feed, carriage return), one optional sign, a digit, further digits with single
  underscores between them, white space, and the end of the string. Anything else raises
  \<open>ValueError\<close>, which is \<open>None\<close> here. (The limit of 4300 digits of recent versions is
  beyond the 4096 characters of a message.)
\<close>

definition is_space :: "nat \<Rightarrow> bool" where
  "is_space c = (c = 32 \<or> (9 \<le> c \<and> c \<le> 13))"

definition is_digit :: "nat \<Rightarrow> bool" where
  "is_digit c = (48 \<le> c \<and> c \<le> 57)"

text \<open>
  \<open>long_digits\<close> reads the run of digits and underscores and returns its value and the
  rest of the string; \<open>prev\<close> says that the character before was an underscore.
\<close>

fun long_digits :: "bool \<Rightarrow> int \<Rightarrow> py_str \<Rightarrow> (int \<times> py_str) option" where
  "long_digits prev acc [] = (if prev then None else Some (acc, []))"
| "long_digits prev acc (c # cs) =
     (if is_digit c then long_digits False (acc * 10 + int (c - 48)) cs
      else if c = 95 then (if prev then None else long_digits True acc cs)
      else if prev then None else Some (acc, c # cs))"

definition long_from_string :: "py_str \<Rightarrow> int option" where
  "long_from_string s =
     (case dropWhile is_space s of
        [] \<Rightarrow> None
      | c # cs \<Rightarrow>
          (case (if c = 43 \<or> c = 45 then cs else c # cs) of
             [] \<Rightarrow> None
           | d # ds \<Rightarrow>
               if \<not> is_digit d then None
               else (case long_digits False 0 (d # ds) of
                       None \<Rightarrow> None
                     | Some (v, rest) \<Rightarrow>
                         if dropWhile is_space rest = []
                         then Some (if c = 45 then - v else v)
                         else None)))"

definition py_int :: "env \<Rightarrow> py_str \<Rightarrow> int option" where
  "py_int env s =
     long_from_string (if list_all (\<lambda>c. c < 128) s then s else transform_decimal_and_space env s)"

section \<open>Privileged grants and registration\<close>

text \<open>
  \<open>admin_handler\<close> and \<open>vip_handler\<close> take \<open>int\<close> of the arguments, then call
  \<open>save_user\<close>, whose query cannot be encoded for an integer beyond 8 bytes
  (\<open>OverflowError\<close>), then reply.
\<close>

definition admin_handler :: "env \<Rightarrow> message \<Rightarrow> db \<Rightarrow> outcome" where
  "admin_handler env m s =
     (if from_user_id m = admin_id env then
        (case py_int env (msg_args m) of
           None \<Rightarrow> Faulted ValueError s []
         | Some n \<Rightarrow>
             if int64_ok n then Handled (save_user n True False s) [Reply Done]
             else Faulted OverflowError s [])
      else Handled s [Reply NoRights])"

definition vip_handler :: "env \<Rightarrow> message \<Rightarrow> db \<Rightarrow> outcome" where
  "vip_handler env m s =
     (if from_user_id m = admin_id env then
        (case py_int env (msg_args m) of
           None \<Rightarrow> Faulted ValueError s []
         | Some n \<Rightarrow>
             if int64_ok n then Handled (save_user n False True s) [Reply Done]
             else Faulted OverflowError s [])
      else Handled s [Reply NoRights])"

definition start_handler :: "message \<Rightarrow> db \<Rightarrow> outcome" where
  "start_handler m s =
     (case find_one_user (from_user_id m) s of
        None \<Rightarrow> Handled (save_user (from_user_id m) False False s) [Reply Welcome]
      | Some u \<Rightarrow> Handled s [Reply Welcome])"

section \<open>Fan-out of a new message\<close>

text \<open>
  The reply target on the recipient's side: a reply to a message of the bot is looked up
  by \<open>sender_message_id\<close>, a reply to any other message by \<open>original_message_id\<close>.
\<close>

definition reply_target :: "message \<Rightarrow> int \<Rightarrow> db \<Rightarrow> lookup" where
  "reply_target m rid s =
     (case reply_to_message m of
        Some r \<Rightarrow>
          if replied_is_bot r
          then get_sent_message_id (Some (replied_message_id r)) None (Some rid) s
          else get_sent_message_id None (Some (replied_message_id r)) (Some rid) s
      | None \<Rightarrow> LNone)"

text \<open>The request \<open>send_msg\<close> makes to the transport for one recipient.\<close>

definition copy_request_for :: "message \<Rightarrow> user_doc \<Rightarrow> py_str option \<Rightarrow> db \<Rightarrow> copy_request" where
  "copy_request_for m u markup s =
     \<lparr>chat_id = user_id u, from_chat_id = from_user_id m,
      copy_message_id = message_id m, reply_markup = markup,
      reply_to_message_id = reply_target m (user_id u) s\<rparr>"

definition send_msg :: "env \<Rightarrow> message \<Rightarrow> user_doc \<Rightarrow> py_str option \<Rightarrow> db \<Rightarrow> db \<times> action list" where
  "send_msg env m u markup s =
     (case copy_message env (copy_request_for m u markup s) of
        Ok sent \<Rightarrow>
          (save_sent_message (from_user_id m) sent (user_id u) sent (message_id m) s, [])
      | BotBlocked \<Rightarrow> (s\<lparr>users := delete_one_user (user_id u) (users s)\<rparr>, [])
      | UserDeactivated \<Rightarrow> (s\<lparr>users := delete_one_user (user_id u) (users s)\<rparr>, [])
      | OtherError \<Rightarrow> (s, [LogException]))"

text \<open>
  The per-recipient tasks are gathered; here they run one after the other, in the order
  of the directory.
\<close>

fun fan_out :: "env \<Rightarrow> message \<Rightarrow> py_str option \<Rightarrow> user_doc list \<Rightarrow> db \<Rightarrow> db \<times> action list" where
  "fan_out env m markup [] s = (s, [])"
| "fan_out env m markup (u # us) s =
     (case send_msg env m u markup s of
        (s1, a1) \<Rightarrow> (case fan_out env m markup us s1 of (s2, a2) \<Rightarrow> (s2, a1 @ a2)))"

definition nickname_button :: "user_doc \<Rightarrow> message \<Rightarrow> py_str" where
  "nickname_button u m =
     (if vip u then lit ''VIP'' else []) @ (if admin u then lit ''ADMIN'' else []) @ lit '' '' @
     (case from_username m of
        Some n \<Rightarrow> if n \<noteq> [] then n else lit ''id'' @ str_int (from_user_id m)
      | None \<Rightarrow> lit ''id'' @ str_int (from_user_id m))"

definition broadcast_message :: "env \<Rightarrow> message \<Rightarrow> db \<Rightarrow> outcome" where
  "broadcast_message env m s =
     (case find_one_user (from_user_id m) s of
        None \<Rightarrow> Faulted TypeError s []
      | Some u \<Rightarrow>
          (case get_settings (user_id u) s of
             (show_nickname_inline, s1) \<Rightarrow>
               (case fan_out env m
                       (if show_nickname_inline then Some (nickname_button u m) else None)
                       (users s1) s1 of
                  (s2, acts) \<Rightarrow> Handled s2 (acts @ [Reply (SentTo (length (users s1)))]))))"

text \<open>
  \<open>text_handler\<close> reads the clock twice: \<open>t_check\<close> is the reading in \<open>cooldown_check\<close>,
  \<open>t_write\<close> the later one in \<open>update_cooldown\<close>.
\<close>

definition text_handler :: "env \<Rightarrow> int \<Rightarrow> int \<Rightarrow> message \<Rightarrow> db \<Rightarrow> outcome" where
  "text_handler env t_check t_write m s =
     (if is_admin (from_user_id m) s \<or> is_vip (from_user_id m) s then broadcast_message env m s
      else if cooldown_check t_check (from_user_id m) s
      then broadcast_message env m (update_cooldown t_write (from_user_id m) s)
      else Handled s [Reply PleaseWait])"

section \<open>Edits\<close>

definition edit_cor :: "env \<Rightarrow> message \<Rightarrow> sent_doc \<Rightarrow> py_str option \<Rightarrow> db \<Rightarrow> db \<times> action list" where
  "edit_cor env m d markup s =
     (case edit_message_text env
             \<lparr>edit_chat_id = receiver_id d, edit_message_id = receiver_message_id d,
              edit_text = (case msg_text m of Some t \<Rightarrow> t | None \<Rightarrow> lit ''None'') @
                          lit '' (edited)'',
              edit_reply_markup = markup\<rparr> of
        Ok x \<Rightarrow> (s, [])
      | BotBlocked \<Rightarrow> (s\<lparr>users := delete_one_user (receiver_id d) (users s)\<rparr>, [])
      | UserDeactivated \<Rightarrow> (s\<lparr>users := delete_one_user (receiver_id d) (users s)\<rparr>, [])
      | OtherError \<Rightarrow> (s, [LogException]))"

fun edit_all :: "env \<Rightarrow> message \<Rightarrow> py_str option \<Rightarrow> sent_doc list \<Rightarrow> db \<Rightarrow> db \<times> action list" where
  "edit_all env m markup [] s = (s, [])"
| "edit_all env m markup (d # ds) s =
     (case edit_cor env m d markup s of
        (s1, a1) \<Rightarrow> (case edit_all env m markup ds s1 of (s2, a2) \<Rightarrow> (s2, a1 @ a2)))"

definition edit_handler :: "env \<Rightarrow> message \<Rightarrow> db \<Rightarrow> outcome" where
  "edit_handler env m s =
     (case find_one_user (from_user_id m) s of
        None \<Rightarrow> Faulted TypeError s []
      | Some u \<Rightarrow>
          (case get_settings (user_id u) s of
             (show_nickname_inline, s1) \<Rightarrow>
               (case edit_all env m
                       (if show_nickname_inline then Some (nickname_button u m) else None)
                       (get_sent_messages (from_user_id m) (message_id m) s1) s1 of
                  (s2, acts) \<Rightarrow> Handled s2 acts)))"

section \<open>Commands on a replied-to message\<close>

text \<open>
  The documents a replied-to message resolves to: by \<open>sender_message_id\<close> when the
  message is one of the bot's, by \<open>original_message_id\<close> otherwise.
\<close>

definition replied_docs :: "replied_message \<Rightarrow> db \<Rightarrow> sent_doc list" where
  "replied_docs r s =
     (if replied_is_bot r
      then filter (\<lambda>d. sender_message_id d = replied_message_id r) (sent_messages s)
      else filter (\<lambda>d. original_message_id d = replied_message_id r) (sent_messages s))"

fun delete_copies :: "env \<Rightarrow> sent_doc list \<Rightarrow> action list" where
  "delete_copies env [] = []"
| "delete_copies env (d # ds) =
     DeleteMessage (receiver_id d) (receiver_message_id d) #
     (if delete_message env (receiver_id d) (receiver_message_id d) then [] else [LogException]) @
     delete_copies env ds"

fun delete_loop :: "env \<Rightarrow> int \<Rightarrow> sent_doc list \<Rightarrow> db \<Rightarrow> action list \<Rightarrow> outcome" where
  "delete_loop env issuer [] s acts = Handled s (acts @ [Reply Deleted])"
| "delete_loop env issuer (msg # msgs) s acts =
     (if \<not> is_admin issuer s \<and> \<not> issuer = sender_id msg
      then Handled s (acts @ [Reply NoRightsDelete])
      else delete_loop env issuer msgs s
             (acts @ delete_copies env
                (filter (\<lambda>d. original_message_id d = original_message_id msg) (sent_messages s))))"

definition delete_handler :: "env \<Rightarrow> message \<Rightarrow> db \<Rightarrow> outcome" where
  "delete_handler env m s =
     (case reply_to_message m of
        Some r \<Rightarrow> delete_loop env (from_user_id m) (replied_docs r s) s []
      | None \<Rightarrow> Handled s [])"

text \<open>
  \<open>ban_loop\<close> is the \<open>async for\<close> of \<open>ban_handler\<close>, with the local \<open>user_id\<close> as an
  argument. Every iteration reads the clock: \<open>clock k\<close> is the reading of
  \<open>datetime.now()\<close> in iteration \<open>k\<close>, counted from 0. The sum with the \<open>timedelta\<close> is
  computed after the flags are saved and before the cooldown is written, and raises
  \<open>OverflowError\<close> when it leaves the range of \<open>datetime\<close>.
\<close>

fun ban_loop :: "(nat \<Rightarrow> int) \<Rightarrow> nat \<Rightarrow> int \<Rightarrow> sent_doc list \<Rightarrow> int \<Rightarrow> db \<Rightarrow> outcome" where
  "ban_loop clock k issuer [] uid s =
     Handled s [Reply (if uid \<noteq> 0 then Banned uid else WentWrong)]"
| "ban_loop clock k issuer (msg # msgs) uid s =
     (if \<not> is_admin issuer s then Handled s [Reply NoRightsBan]
      else
        (case find_one_user (sender_id msg) s of
           None \<Rightarrow> Faulted TypeError s []
         | Some u \<Rightarrow>
             (let s1 = (if vip u then save_user (sender_id msg) False False s else s);
                  s2 = (if admin u then save_user (sender_id msg) False False s1 else s1)
              in if datetime_max < clock k + days 365 then Faulted OverflowError s2 []
                 else ban_loop clock (Suc k) issuer msgs (sender_id msg)
                        (s2\<lparr>cooldown :=
                              (cooldown s2)(sender_id msg \<mapsto> to_store (clock k + days 365))\<rparr>))))"

definition ban_handler :: "(nat \<Rightarrow> int) \<Rightarrow> message \<Rightarrow> db \<Rightarrow> outcome" where
  "ban_handler clock m s =
     (case reply_to_message m of
        Some r \<Rightarrow> ban_loop clock 0 (from_user_id m) (replied_docs r s) 0 s
      | None \<Rightarrow> Handled s [])"

fun unban_loop :: "(nat \<Rightarrow> int) \<Rightarrow> nat \<Rightarrow> int \<Rightarrow> sent_doc list \<Rightarrow> int \<Rightarrow> db \<Rightarrow> outcome" where
  "unban_loop clock k issuer [] uid s =
     Handled s [Reply (if uid \<noteq> 0 then Unbanned uid else WentWrong)]"
| "unban_loop clock k issuer (msg # msgs) uid s =
     (if \<not> is_admin issuer s then Handled s [Reply NoRightsUnban]
      else
        (case find_one_user (sender_id msg) s of
           None \<Rightarrow> Faulted TypeError s []
         | Some u \<Rightarrow>
             if clock k - seconds 60 < datetime_min then Faulted OverflowError s []
             else unban_loop clock (Suc k) issuer msgs (sender_id msg)
                    (s\<lparr>cooldown :=
                         (cooldown s)(sender_id msg \<mapsto> to_store (clock k - seconds 60))\<rparr>)))"

definition unban_handler :: "(nat \<Rightarrow> int) \<Rightarrow> message \<Rightarrow> db \<Rightarrow> outcome" where
  "unban_handler clock m s =
     (case reply_to_message m of
        Some r \<Rightarrow> unban_loop clock 0 (from_user_id m) (replied_docs r s) 0 s
      | None \<Rightarrow> Handled s [])"

section \<open>The record of a copy\<close>

text \<open>
  \<open>copy_record env m markup u l d\<close> says that \<open>d\<close> is the record of a copy of message
  \<open>m\<close> that the transport made for the recipient \<open>u\<close>: asked for the copy with the
  markup \<open>markup\<close> and the reply target \<open>l\<close>, the transport returned the id that \<open>d\<close>
  holds in \<open>sender_message_id\<close> and in \<open>receiver_message_id\<close>.
\<close>

definition copy_record ::
  "env \<Rightarrow> message \<Rightarrow> py_str option \<Rightarrow> user_doc \<Rightarrow> lookup \<Rightarrow> sent_doc \<Rightarrow> bool" where
  "copy_record env m markup u l d \<longleftrightarrow>
     copy_message env
       \<lparr>chat_id = user_id u, from_chat_id = from_user_id m, copy_message_id = message_id m,
        reply_markup = markup, reply_to_message_id = l\<rparr> = Ok (sender_message_id d) \<and>
     receiver_message_id d = sender_message_id d \<and>
     receiver_id d = user_id u \<and>
     sender_id d = from_user_id m \<and>
     original_message_id d = message_id m"

section \<open>Scenarios\<close>

text \<open>
  Concrete stores, messages and transports on which the theorems below are evaluated.
  The directory holds X (1, admin), Y (2) and Z (3).
\<close>

definition empty_db :: db where
  "empty_db = \<lparr>users = [], settings = Map.empty, cooldown = Map.empty, sent_messages = []\<rparr>"

definition plain_message :: "int \<Rightarrow> int \<Rightarrow> message" where
  "plain_message uid mid =
     \<lparr>from_user_id = uid, from_username = None, message_id = mid, reply_to_message = None,
      msg_text = None, msg_args = []\<rparr>"

definition reply_message :: "int \<Rightarrow> int \<Rightarrow> int \<Rightarrow> bool \<Rightarrow> message" where
  "reply_message uid mid rmid is_bot =
     (plain_message uid mid)
       \<lparr>reply_to_message := Some \<lparr>replied_message_id = rmid, replied_is_bot = is_bot\<rparr>\<rparr>"

text \<open>The two records of the reply-resolution example: A = 1, B = 2, C = 3.\<close>

definition relay_B :: sent_doc where
  "relay_B = \<lparr>sender_id = 1, sender_message_id = 10, receiver_id = 2,
              receiver_message_id = 55, original_message_id = 10\<rparr>"

definition relay_C :: sent_doc where
  "relay_C = \<lparr>sender_id = 1, sender_message_id = 10, receiver_id = 3,
              receiver_message_id = 77, original_message_id = 10\<rparr>"

text \<open>The same two copies as \<open>send_msg\<close> records them.\<close>

definition sent_B :: sent_doc where
  "sent_B = \<lparr>sender_id = 1, sender_message_id = 55, receiver_id = 2,
             receiver_message_id = 55, original_message_id = 10\<rparr>"

definition sent_C :: sent_doc where
  "sent_C = \<lparr>sender_id = 1, sender_message_id = 77, receiver_id = 3,
             receiver_message_id = 77, original_message_id = 10\<rparr>"

definition db_XYZ :: db where
  "db_XYZ = empty_db\<lparr>users :=
     [\<lparr>user_id = 1, admin = True, vip = False\<rparr>,
      \<lparr>user_id = 2, admin = False, vip = False\<rparr>,
      \<lparr>user_id = 3, admin = False, vip = False\<rparr>]\<rparr>"

text \<open>
  The same directory after Y has broadcast message 7: the ledger holds the copies sent to
  X (41), Y (42) and Z (43), as \<open>send_msg\<close> writes them.
\<close>

definition db_relayed :: db where
  "db_relayed = db_XYZ\<lparr>sent_messages :=
     [\<lparr>sender_id = 2, sender_message_id = 41, receiver_id = 1,
       receiver_message_id = 41, original_message_id = 7\<rparr>,
      \<lparr>sender_id = 2, sender_message_id = 42, receiver_id = 2,
       receiver_message_id = 42, original_message_id = 7\<rparr>,
      \<lparr>sender_id = 2, sender_message_id = 43, receiver_id = 3,
       receiver_message_id = 43, original_message_id = 7\<rparr>]\<rparr>"

text \<open>
  A transport on which every call succeeds; the copy in chat \<open>c\<close> gets the id
  \<open>100 + c\<close>. Of the Unicode tables it has the white space from 127 on and the Arabic
  and the full-width digits.
\<close>

definition env_ok :: env where
  "env_ok =
     \<lparr>admin_id = 1,
      copy_message = (\<lambda>r. Ok (100 + chat_id r)),
      edit_message_text = (\<lambda>r. Ok ()),
      delete_message = (\<lambda>c i. True),
      unicode_isspace = (\<lambda>c. c \<in> {0x85, 0xA0, 0x1680, 0x2028, 0x2029, 0x202F, 0x205F, 0x3000}
                              \<or> (0x2000 \<le> c \<and> c \<le> 0x200A)),
      unicode_todecimal = (\<lambda>c. if 0x660 \<le> c \<and> c \<le> 0x669 then Some (c - 0x660)
                               else if 0xFF10 \<le> c \<and> c \<le> 0xFF19 then Some (c - 0xFF10)
                               else None)\<rparr>"

text \<open>The same transport, except that Y has blocked the bot.\<close>

definition env_Y_blocked :: env where
  "env_Y_blocked =
     env_ok\<lparr>copy_message := (\<lambda>r. if chat_id r = 2 then BotBlocked else Ok (100 + chat_id r))\<rparr>"

text \<open>A transport that gives every copy the id 500.\<close>

definition env_same_id :: env where
  "env_same_id = env_ok\<lparr>copy_message := (\<lambda>r. Ok 500)\<rparr>"

text \<open>A clock that stands still at \<open>t\<close>.\<close>

definition clock_at :: "int \<Rightarrow> nat \<Rightarrow> int" where
  "clock_at t k = t"

text \<open>
  A ledger on which two copies in different chats carry the same id 50: Z's message 8 as
  copied to X, and Y's message 7 as copied to Z.
\<close>

definition db_same_copy_id :: db where
  "db_same_copy_id = db_XYZ\<lparr>sent_messages :=
     [\<lparr>sender_id = 3, sender_message_id = 50, receiver_id = 1,
       receiver_message_id = 50, original_message_id = 8\<rparr>,
      \<lparr>sender_id = 2, sender_message_id = 50, receiver_id = 3,
       receiver_message_id = 50, original_message_id = 7\<rparr>]\<rparr>"

section \<open>Auxiliary facts\<close>

lemmas scenario_defs =
  empty_db_def plain_message_def reply_message_def relay_B_def relay_C_def sent_B_def
  sent_C_def db_XYZ_def db_relayed_def db_same_copy_id_def env_ok_def env_Y_blocked_def
  env_same_id_def clock_at_def

lemmas handler_defs =
  broadcast_message_def text_handler_def find_one_user_def is_admin_def is_vip_def
  get_settings_def send_msg_def copy_request_for_def reply_target_def
  get_sent_message_id_def save_sent_message_def cooldown_check_def update_cooldown_def
  delete_handler_def ban_handler_def unban_handler_def replied_docs_def save_user_def
  seconds_def days_def to_store_def datetime_min_def datetime_max_def Let_def

lemmas int_defs =
  py_int_def lit_def long_from_string_def is_space_def is_digit_def int64_ok_def

subsection \<open>Time and numbers\<close>

text \<open>What the store keeps of a datetime is less than a millisecond before it.\<close>

lemma to_store_bounds: "to_store t \<le> t \<and> t < to_store t + 1000"
proof -
  have "to_store t = t - t mod 1000"
    by (simp add: to_store_def minus_mod_eq_div_mult)
  moreover have "0 \<le> t mod 1000" "t mod 1000 < 1000" by simp_all
  ultimately show ?thesis by linarith
qed

text \<open>On an ASCII string \<open>int\<close> does not depend on the Unicode tables.\<close>

lemma py_int_ascii:
  "list_all (\<lambda>c. c < 128) s \<Longrightarrow> py_int env s = long_from_string s"
  by (simp add: py_int_def)

subsection \<open>Directory\<close>

lemma find_upsert_user:
  "find (\<lambda>x. user_id x = user_id d) (upsert_user d us) = Some d"
  by (induction us) auto

lemma find_one_user_save_user:
  "find_one_user uid (save_user uid a v s) = Some \<lparr>user_id = uid, admin = a, vip = v\<rparr>"
  using find_upsert_user [of "\<lparr>user_id = uid, admin = a, vip = v\<rparr>" "users s"]
  by (simp add: find_one_user_def save_user_def)

lemma delete_one_user_absent:
  "distinct (map user_id us) \<Longrightarrow> uid \<notin> user_id ` set (delete_one_user uid us)"
  by (induction us) auto

lemma cooldown_check_iff:
  "cooldown_check now uid s \<longleftrightarrow>
     (cooldown s uid = None \<or> (\<exists>t. cooldown s uid = Some t \<and> seconds 60 \<le> now - t))"
  by (auto simp: cooldown_check_def split: option.splits)

subsection \<open>Fan-out\<close>

text \<open>
  One per-recipient operation leaves settings and cooldown alone, only ever logs, and
  either keeps the ledger or appends the record of the copy the transport made.
\<close>

lemma send_msg_cases:
  assumes "send_msg env m u markup s = (s', acts)"
  shows "settings s' = settings s \<and> cooldown s' = cooldown s \<and> set acts \<subseteq> {LogException} \<and>
         (sent_messages s' = sent_messages s \<or>
          (\<exists>d. copy_record env m markup u (reply_target m (user_id u) s) d \<and>
                sent_messages s' = sent_messages s @ [d]))"
  using assms
  by (auto simp: send_msg_def copy_request_for_def copy_record_def save_sent_message_def
      split: transport_result.splits)

lemma fan_out_invariant:
  "fan_out env m markup us s = (s', acts) \<Longrightarrow>
     settings s' = settings s \<and> cooldown s' = cooldown s \<and> set acts \<subseteq> {LogException} \<and>
     (\<exists>new. sent_messages s' = sent_messages s @ new \<and>
        (\<forall>d\<in>set new. \<exists>u\<in>set us. \<exists>l. copy_record env m markup u l d))"
proof (induction us arbitrary: s s' acts)
  case Nil
  then show ?case by simp
next
  case (Cons u us)
  obtain s1 a1 where step: "send_msg env m u markup s = (s1, a1)"
    by (cases "send_msg env m u markup s")
  obtain s2 a2 where rest: "fan_out env m markup us s1 = (s2, a2)"
    by (cases "fan_out env m markup us s1")
  from Cons.prems step rest have res: "s' = s2" "acts = a1 @ a2" by simp_all
  note one = send_msg_cases [OF step]
  note ih = Cons.IH [OF rest]
  from ih obtain new where new: "sent_messages s2 = sent_messages s1 @ new"
    "\<forall>d\<in>set new. \<exists>v\<in>set us. \<exists>l. copy_record env m markup v l d" by blast
  from one consider (same) "sent_messages s1 = sent_messages s"
    | (added) d where "copy_record env m markup u (reply_target m (user_id u) s) d"
        "sent_messages s1 = sent_messages s @ [d]" by blast
  then have "\<exists>new. sent_messages s2 = sent_messages s @ new \<and>
        (\<forall>d\<in>set new. \<exists>v\<in>set (u # us). \<exists>l. copy_record env m markup v l d)"
  proof cases
    case same
    with new have "sent_messages s2 = sent_messages s @ new" by simp
    moreover from new(2)
    have "\<forall>d\<in>set new. \<exists>v\<in>set (u # us). \<exists>l. copy_record env m markup v l d" by auto
    ultimately show ?thesis by blast
  next
    case added
    with new have "sent_messages s2 = sent_messages s @ (d # new)" by simp
    moreover from new(2) added(1)
    have "\<forall>e\<in>set (d # new). \<exists>v\<in>set (u # us). \<exists>l. copy_record env m markup v l e" by auto
    ultimately show ?thesis by blast
  qed
  with one ih res show ?case by auto
qed

lemma get_settings_keeps:
  "get_settings uid s = (b, s1) \<Longrightarrow>
     users s1 = users s \<and> cooldown s1 = cooldown s \<and> sent_messages s1 = sent_messages s"
  by (auto simp: get_settings_def split: option.splits)

text \<open>
  A broadcast by a sender with a directory entry runs to its end; what it leaves behind
  is the ledger extended by the records of the copies made, the cooldown untouched, and
  as actions only logged exceptions followed by the confirmation.
\<close>

lemma broadcast_message_shape:
  assumes "find_one_user (from_user_id m) s = Some u"
  shows "\<exists>s' logs new.
           broadcast_message env m s = Handled s' (logs @ [Reply (SentTo (length (users s)))]) \<and>
           set logs \<subseteq> {LogException} \<and> cooldown s' = cooldown s \<and>
           sent_messages s' = sent_messages s @ new \<and>
           (\<forall>d\<in>set new. \<exists>v\<in>set (users s). \<exists>markup l. copy_record env m markup v l d)"
proof -
  obtain b s1 where gs: "get_settings (user_id u) s = (b, s1)"
    by (cases "get_settings (user_id u) s")
  let ?markup = "if b then Some (nickname_button u m) else None"
  obtain s2 acts where fo: "fan_out env m ?markup (users s1) s1 = (s2, acts)"
    by (cases "fan_out env m ?markup (users s1) s1")
  from assms gs fo
  have bm: "broadcast_message env m s = Handled s2 (acts @ [Reply (SentTo (length (users s1)))])"
    by (simp add: broadcast_message_def)
  note keeps = get_settings_keeps [OF gs]
  from fan_out_invariant [OF fo] obtain new where
    inv: "cooldown s2 = cooldown s1" "set acts \<subseteq> {LogException}"
      "sent_messages s2 = sent_messages s1 @ new"
      "\<forall>d\<in>set new. \<exists>v\<in>set (users s1). \<exists>l. copy_record env m ?markup v l d" by blast
  from inv(4) keeps
  have "\<forall>d\<in>set new. \<exists>v\<in>set (users s). \<exists>markup l. copy_record env m markup v l d" by metis
  with bm keeps inv(1,2,3) show ?thesis by auto
qed

lemma broadcast_message_fault:
  "find_one_user (from_user_id m) s = None \<Longrightarrow> broadcast_message env m s = Faulted TypeError s []"
  by (simp add: broadcast_message_def)

text \<open>A broadcast never ends as nothing but the ``please wait'' reply.\<close>

lemma broadcast_message_not_wait:
  "broadcast_message env m s \<noteq> Handled s0 [Reply PleaseWait]"
proof (cases "find_one_user (from_user_id m) s")
  case None
  then show ?thesis by (simp add: broadcast_message_fault)
next
  case (Some w)
  from broadcast_message_shape [OF Some, of env] show ?thesis by auto
qed

lemma broadcast_message_cooldown:
  "cooldown (outcome_db (broadcast_message env m s)) = cooldown s"
proof (cases "find_one_user (from_user_id m) s")
  case None
  then show ?thesis by (simp add: broadcast_message_fault)
next
  case (Some w)
  from broadcast_message_shape [OF Some, of env] show ?thesis by auto
qed

subsection \<open>Ban\<close>

text \<open>
  What one iteration of the ban loop leaves: the banned user without flags and with the
  cooldown of the reading plus 365 days, as the store keeps it.
\<close>

lemma ban_step_state:
  fixes now :: int
  assumes "find_one_user uid s = Some u"
  defines "s2 \<equiv> (\<lambda>s1. if admin u then save_user uid False False s1 else s1)
                   (if vip u then save_user uid False False s else s)"
  shows "\<not> is_admin uid (s2\<lparr>cooldown := (cooldown s2)(uid \<mapsto> to_store (now + days 365))\<rparr>) \<and>
         \<not> is_vip uid (s2\<lparr>cooldown := (cooldown s2)(uid \<mapsto> to_store (now + days 365))\<rparr>)"
proof -
  have saved: "\<And>t. find_one_user uid (save_user uid False False t) =
      Some \<lparr>user_id = uid, admin = False, vip = False\<rparr>"
    by (rule find_one_user_save_user)
  have cd: "\<And>t c. find_one_user uid (t\<lparr>cooldown := c\<rparr>) = find_one_user uid t"
    by (simp add: find_one_user_def)
  show ?thesis
    using assms(1) saved
    by (cases "vip u"; cases "admin u") (simp_all add: s2_def is_admin_def is_vip_def cd)
qed

lemma ban_loop_banned:
  "ban_loop clock k issuer msgs uid s = Handled s' [Reply (Banned u)] \<Longrightarrow>
     (msgs = [] \<and> u = uid \<and> s' = s) \<or>
     (msgs \<noteq> [] \<and> \<not> is_admin u s' \<and> \<not> is_vip u s' \<and>
      clock (k + length msgs - 1) + days 365 \<le> datetime_max \<and>
      cooldown s' u = Some (to_store (clock (k + length msgs - 1) + days 365)))"
proof (induction msgs arbitrary: k uid s)
  case Nil
  then show ?case by (simp split: if_splits)
next
  case (Cons msg msgs)
  from Cons.prems have adm: "is_admin issuer s" by (auto split: if_splits)
  from Cons.prems adm obtain v where v: "find_one_user (sender_id msg) s = Some v"
    by (cases "find_one_user (sender_id msg) s") auto
  let ?s2 = "(\<lambda>s1. if admin v then save_user (sender_id msg) False False s1 else s1)
               (if vip v then save_user (sender_id msg) False False s else s)"
  let ?s3 = "?s2\<lparr>cooldown := (cooldown ?s2)(sender_id msg \<mapsto> to_store (clock k + days 365))\<rparr>"
  from Cons.prems adm v have range: "clock k + days 365 \<le> datetime_max"
    by (auto simp: Let_def split: if_splits)
  from Cons.prems adm v range
  have rest: "ban_loop clock (Suc k) issuer msgs (sender_id msg) ?s3 = Handled s' [Reply (Banned u)]"
    by (simp add: Let_def)
  from Cons.IH [OF rest] show ?case
  proof
    assume last: "msgs = [] \<and> u = sender_id msg \<and> s' = ?s3"
    with ban_step_state [OF v, of "clock k"] range show ?thesis by simp
  next
    assume "msgs \<noteq> [] \<and> \<not> is_admin u s' \<and> \<not> is_vip u s' \<and>
      clock (Suc k + length msgs - 1) + days 365 \<le> datetime_max \<and>
      cooldown s' u = Some (to_store (clock (Suc k + length msgs - 1) + days 365))"
    then show ?thesis by simp
  qed
qed

subsection \<open>Delete\<close>

lemma delete_loop_db: "outcome_db (delete_loop env issuer msgs s acts) = s"
  by (induction msgs arbitrary: acts) auto

text \<open>
  When the first record the replied-to message resolves to was sent by someone else, an
  issuer who is no admin is denied, and nothing else happens.
\<close>

lemma delete_handler_denied:
  "reply_to_message m = Some r \<Longrightarrow> replied_docs r s = d # ds \<Longrightarrow>
   \<not> is_admin (from_user_id m) s \<Longrightarrow> sender_id d \<noteq> from_user_id m \<Longrightarrow>
     delete_handler env m s = Handled s [Reply NoRightsDelete]"
  by (simp add: delete_handler_def)

subsection \<open>A replied-to message without a record\<close>

lemma ban_handler_not_found:
  "reply_to_message m = Some r \<Longrightarrow> replied_docs r s = [] \<Longrightarrow>
     ban_handler clock m s = Handled s [Reply WentWrong]"
  by (simp add: ban_handler_def)

lemma unban_handler_not_found:
  "reply_to_message m = Some r \<Longrightarrow> replied_docs r s = [] \<Longrightarrow>
     unban_handler clock m s = Handled s [Reply WentWrong]"
  by (simp add: unban_handler_def)

lemma delete_handler_not_found:
  "reply_to_message m = Some r \<Longrightarrow> replied_docs r s = [] \<Longrightarrow>
     delete_handler env m s = Handled s [Reply Deleted]"
  by (simp add: delete_handler_def)

section \<open>The ledger\<close>

text \<open>
  Claim C1 says that recording the same (original, recipient) pair twice leaves one
  RelayRecord, the second call failing as a duplicate. \<open>save_sent_message\<close> has no
  such check: recording the copy 55 of message 10 for recipient 2 twice leaves the record
  twice.
\<close>

theorem record_twice_counterexample:
  "sent_messages (save_sent_message 1 55 2 55 10 (save_sent_message 1 55 2 55 10 empty_db)) =
     [\<lparr>sender_id = 1, sender_message_id = 55, receiver_id = 2,
       receiver_message_id = 55, original_message_id = 10\<rparr>,
      \<lparr>sender_id = 1, sender_message_id = 55, receiver_id = 2,
       receiver_message_id = 55, original_message_id = 10\<rparr>]"
  by (simp add: save_sent_message_def empty_db_def)

text \<open>
  Claim C1, amended: every call of \<open>save_sent_message\<close> appends exactly one record to the
  ledger, whatever the ledger holds, and touches nothing else; so two calls with the same
  (original, recipient) pair leave two records.
\<close>

theorem record_appends:
  "save_sent_message sid smid rid rmid omid s =
     s\<lparr>sent_messages := sent_messages s @
        [\<lparr>sender_id = sid, sender_message_id = smid, receiver_id = rid,
          receiver_message_id = rmid, original_message_id = omid\<rparr>]\<rparr> \<and>
   length (sent_messages (save_sent_message sid smid rid rmid omid
             (save_sent_message sid smid rid rmid omid s))) = length (sent_messages s) + 2"
  by (simp add: save_sent_message_def)

text \<open>
  Two facts about the ledger of the reply-resolution example, which holds the records
  (sender A, sender copy 10, original 10, recipient B, recipient copy 55) and (sender A,
  sender copy 10, original 10, recipient C, recipient copy 77): asked with the key 10,
  either lookup of \<open>get_sent_message_id\<close> returns 77 for recipient C.
\<close>

lemma lookups_by_key_10:
  "get_sent_message_id (Some 10) None (Some 3) (s\<lparr>sent_messages := [relay_B, relay_C]\<rparr>) = LId 77 \<and>
   get_sent_message_id None (Some 10) (Some 3) (s\<lparr>sent_messages := [relay_B, relay_C]\<rparr>) = LId 77"
  by (simp add: get_sent_message_id_def relay_B_def relay_C_def)

text \<open>
  Claim C2 says that on this ledger a reply by B to the received copy 55 resolves, for
  the recipient C, to C's copy 77. In \<open>send_msg\<close> the copy 55 is a message of the bot, so
  its id 55 is looked up as a \<open>sender_message_id\<close> together with the recipient C. No
  record has both, neither on the ledger of the example nor on the ledger as \<open>send_msg\<close>
  itself writes it (where the record with 55 is B's): the lookup returns nothing and the
  request to the transport for C carries no reply target. The other branch does resolve:
  a reply to message 10 of a user is looked up as \<open>original_message_id\<close> and gives 77.
\<close>

theorem reply_to_received_copy_unresolved:
  "reply_target (m\<lparr>reply_to_message := Some \<lparr>replied_message_id = 55, replied_is_bot = True\<rparr>\<rparr>)
     3 (s\<lparr>sent_messages := [relay_B, relay_C]\<rparr>) = LNone \<and>
   reply_target (m\<lparr>reply_to_message := Some \<lparr>replied_message_id = 55, replied_is_bot = True\<rparr>\<rparr>)
     3 (s\<lparr>sent_messages := [sent_B, sent_C]\<rparr>) = LNone \<and>
   reply_to_message_id
     (copy_request_for (reply_message 2 56 55 True) \<lparr>user_id = 3, admin = False, vip = False\<rparr>
        markup (s\<lparr>sent_messages := [relay_B, relay_C]\<rparr>)) = LNone \<and>
   reply_target (m\<lparr>reply_to_message := Some \<lparr>replied_message_id = 10, replied_is_bot = False\<rparr>\<rparr>)
     3 (s\<lparr>sent_messages := [relay_B, relay_C]\<rparr>) = LId 77 \<and>
   reply_target (m\<lparr>reply_to_message := Some \<lparr>replied_message_id = 10, replied_is_bot = False\<rparr>\<rparr>)
     3 (s\<lparr>sent_messages := [sent_B, sent_C]\<rparr>) = LId 77"
  by (simp add: get_sent_message_id_def relay_B_def relay_C_def sent_B_def sent_C_def
      reply_target_def copy_request_for_def reply_message_def plain_message_def)

section \<open>Broadcast\<close>

text \<open>
  Claim C3 says that the confirmation reports the number of successful deliveries, 2
  when one of three recipients is unreachable. X broadcasts message 10 to the directory
  X, Y, Z while Y has blocked the bot: two records are written, and the confirmation
  says 3.
\<close>

theorem confirmation_count_counterexample:
  "outcome_actions (broadcast_message env_Y_blocked (plain_message 1 10) db_XYZ) =
     [Reply (SentTo 3)] \<and>
   length (sent_messages (outcome_db (broadcast_message env_Y_blocked (plain_message 1 10) db_XYZ))) = 2"
  by (simp add: scenario_defs handler_defs)

text \<open>
  Claim C3, amended: for every broadcast by a sender with a directory entry, the
  confirmation sent after all per-recipient operations reports the number of recipients
  attempted, which is the size of the directory when the broadcast starts, whatever the
  transport did for each of them; nothing else is sent to the sender.
\<close>

theorem confirmation_count:
  assumes "find_one_user (from_user_id m) s \<noteq> None"
  shows "\<exists>s' logs. broadcast_message env m s =
            Handled s' (logs @ [Reply (SentTo (length (users s)))]) \<and>
          set logs \<subseteq> {LogException}"
proof -
  from assms obtain u where "find_one_user (from_user_id m) s = Some u" by auto
  from broadcast_message_shape [OF this, of env] show ?thesis by blast
qed

theorem confirmation_count_witness:
  "find_one_user (from_user_id (plain_message 1 10)) db_XYZ \<noteq> None \<and>
   outcome_actions (broadcast_message env_Y_blocked (plain_message 1 10) db_XYZ) =
     [Reply (SentTo (length (users db_XYZ)))]"
proof -
  have h: "find_one_user (from_user_id (plain_message 1 10)) db_XYZ \<noteq> None"
    by (simp add: scenario_defs handler_defs)
  from confirmation_count [OF h, of env_Y_blocked] obtain s' logs where
    r: "broadcast_message env_Y_blocked (plain_message 1 10) db_XYZ =
          Handled s' (logs @ [Reply (SentTo (length (users db_XYZ)))])"
    by blast
  have "outcome_actions (broadcast_message env_Y_blocked (plain_message 1 10) db_XYZ) =
          [Reply (SentTo 3)]"
    by (simp add: scenario_defs handler_defs)
  with r h show ?thesis by (simp add: scenario_defs)
qed

text \<open>
  Claim C4 says that an unreachable recipient is removed from the directory and that
  every RelayRecord of that recipient is removed from the ledger. X broadcasts message 10
  while Y has blocked the bot, on a ledger that holds the copy 42 Y received earlier: Y
  leaves the directory, and the record of copy 42 is still the second one of the ledger.
\<close>

theorem unreachable_recipient_counterexample:
  "map user_id (users (outcome_db (broadcast_message env_Y_blocked (plain_message 1 10) db_relayed))) =
     [1, 3] \<and>
   sent_messages (outcome_db (broadcast_message env_Y_blocked (plain_message 1 10) db_relayed)) ! 1 =
     \<lparr>sender_id = 2, sender_message_id = 42, receiver_id = 2,
      receiver_message_id = 42, original_message_id = 7\<rparr>"
  by (simp add: scenario_defs handler_defs)

text \<open>
  Claim C4, amended: when the transport reports the recipient of a per-recipient
  operation as having blocked the bot or as deactivated, the operation deletes that
  recipient's document from the directory (after which a directory with one document per
  user no longer has the recipient), leaves the ledger as it was, and neither replies nor
  logs.
\<close>

theorem unreachable_recipient:
  assumes "copy_message env
             \<lparr>chat_id = user_id u, from_chat_id = from_user_id m,
              copy_message_id = message_id m, reply_markup = markup,
              reply_to_message_id = reply_target m (user_id u) s\<rparr> \<in> {BotBlocked, UserDeactivated}"
  shows "send_msg env m u markup s = (s\<lparr>users := delete_one_user (user_id u) (users s)\<rparr>, []) \<and>
         sent_messages (fst (send_msg env m u markup s)) = sent_messages s \<and>
         (distinct (map user_id (users s)) \<longrightarrow>
            user_id u \<notin> user_id ` set (users (fst (send_msg env m u markup s))))"
proof -
  from assms
  have sm: "send_msg env m u markup s = (s\<lparr>users := delete_one_user (user_id u) (users s)\<rparr>, [])"
    by (auto simp: send_msg_def copy_request_for_def)
  show ?thesis using delete_one_user_absent [of "users s" "user_id u"] by (simp add: sm)
qed

theorem unreachable_recipient_witness:
  "copy_message env_Y_blocked
     \<lparr>chat_id = user_id \<lparr>user_id = 2, admin = False, vip = False\<rparr>,
      from_chat_id = from_user_id (plain_message 1 10),
      copy_message_id = message_id (plain_message 1 10), reply_markup = None,
      reply_to_message_id =
        reply_target (plain_message 1 10) (user_id \<lparr>user_id = 2, admin = False, vip = False\<rparr>)
          db_relayed\<rparr> \<in> {BotBlocked, UserDeactivated} \<and>
   distinct (map user_id (users db_relayed)) \<and>
   snd (send_msg env_Y_blocked (plain_message 1 10) \<lparr>user_id = 2, admin = False, vip = False\<rparr>
          None db_relayed) = [] \<and>
   sent_messages (fst (send_msg env_Y_blocked (plain_message 1 10)
          \<lparr>user_id = 2, admin = False, vip = False\<rparr> None db_relayed)) = sent_messages db_relayed \<and>
   user_id \<lparr>user_id = 2, admin = False, vip = False\<rparr> \<notin>
     user_id ` set (users (fst (send_msg env_Y_blocked (plain_message 1 10)
          \<lparr>user_id = 2, admin = False, vip = False\<rparr> None db_relayed)))"
proof -
  let ?Y = "\<lparr>user_id = 2, admin = False, vip = False\<rparr>"
  let ?r = "send_msg env_Y_blocked (plain_message 1 10) ?Y None db_relayed"
  have h: "copy_message env_Y_blocked
     \<lparr>chat_id = user_id ?Y,
      from_chat_id = from_user_id (plain_message 1 10),
      copy_message_id = message_id (plain_message 1 10), reply_markup = None,
      reply_to_message_id = reply_target (plain_message 1 10) (user_id ?Y) db_relayed\<rparr>
        \<in> {BotBlocked, UserDeactivated}"
    by (simp add: scenario_defs)
  have d: "distinct (map user_id (users db_relayed))"
    by (simp add: scenario_defs)
  note r = unreachable_recipient [OF h]
  from r have a: "snd ?r = []" by (simp only: snd_conv)
  from r have b: "sent_messages (fst ?r) = sent_messages db_relayed" by blast
  from r d have c: "user_id ?Y \<notin> user_id ` set (users (fst ?r))" by blast
  from h d a b c show ?thesis by blast
qed

section \<open>Admission\<close>

text \<open>
  Claim C5 says that after a ban admission never allows the user again, however much
  time passes, until an unban. The ban writes a cooldown of the time of the ban plus 365
  days. The admin X bans Y at time 0 by replying to the copy 41 of Y's message; 365 days
  and 60 seconds later the cooldown check of Y passes and Y's next message is broadcast.
\<close>

theorem ban_expires_counterexample:
  "outcome_actions (ban_handler (clock_at 0) (reply_message 1 20 41 True) db_relayed) =
     [Reply (Banned 2)] \<and>
   cooldown_check (days 365 + seconds 60) 2
     (outcome_db (ban_handler (clock_at 0) (reply_message 1 20 41 True) db_relayed)) \<and>
   outcome_actions
     (text_handler env_ok (days 365 + seconds 60) (days 365 + seconds 60) (plain_message 2 21)
        (outcome_db (ban_handler (clock_at 0) (reply_message 1 20 41 True) db_relayed))) =
     [Reply (SentTo 3)]"
  by (simp add: scenario_defs handler_defs)

text \<open>
  Claim C5, amended: after a ban of a user (the issuer is told that the user was
  blocked), the user has neither the admin nor the VIP flag, and the user's cooldown is
  the time of the ban plus 365 days as the store keeps it: the reading \<open>now\<close> of the
  clock in the last iteration of the ban, plus 365 days, cut to whole milliseconds (so
  less than a millisecond before \<open>now\<close> plus 365 days). In every store in which the user
  still has that cooldown and no flag, admission denies the user at every time before
  that cooldown plus 60 seconds, and allows the user from then on.
\<close>

theorem ban_expires:
  assumes "ban_handler clock m s = Handled s' [Reply (Banned u)]"
    and "reply_to_message m = Some r"
  defines "now \<equiv> clock (length (replied_docs r s) - 1)"
  shows "\<not> is_admin u s' \<and> \<not> is_vip u s' \<and>
         cooldown s' u = Some (to_store (now + days 365)) \<and>
         now + days 365 - 1000 < to_store (now + days 365) \<and>
         to_store (now + days 365) \<le> now + days 365 \<and>
         (\<forall>s'' t_check. cooldown s'' u = Some (to_store (now + days 365)) \<longrightarrow>
            (cooldown_check t_check u s'' \<longleftrightarrow>
             to_store (now + days 365) + seconds 60 \<le> t_check)) \<and>
         (\<forall>s'' env t_check t_write m'.
            from_user_id m' = u \<and> cooldown s'' u = Some (to_store (now + days 365)) \<and>
            \<not> is_admin u s'' \<and> \<not> is_vip u s'' \<longrightarrow>
              (text_handler env t_check t_write m' s'' = Handled s'' [Reply PleaseWait] \<longleftrightarrow>
               t_check < to_store (now + days 365) + seconds 60))"
proof -
  from assms(1,2)
  have loop: "ban_loop clock 0 (from_user_id m) (replied_docs r s) 0 s =
                Handled s' [Reply (Banned u)]"
    by (simp add: ban_handler_def)
  have "\<not> (replied_docs r s = [] \<and> u = 0 \<and> s' = s)"
    using loop by (auto split: if_splits)
  with ban_loop_banned [OF loop]
  have st: "\<not> is_admin u s'" "\<not> is_vip u s'" "cooldown s' u = Some (to_store (now + days 365))"
    by (auto simp: now_def)
  have th: "text_handler env t_check t_write m' s'' = Handled s'' [Reply PleaseWait] \<longleftrightarrow>
              t_check < to_store (now + days 365) + seconds 60"
    if "from_user_id m' = u" "cooldown s'' u = Some (to_store (now + days 365))"
       "\<not> is_admin u s''" "\<not> is_vip u s''" for s'' env t_check t_write m'
  proof (cases "t_check < to_store (now + days 365) + seconds 60")
    case True
    with that show ?thesis by (simp add: text_handler_def cooldown_check_def)
  next
    case False
    with that(2) have ok: "cooldown_check t_check u s''" by (simp add: cooldown_check_def)
    with that False broadcast_message_not_wait [of env m' "update_cooldown t_write u s''" s'']
    show ?thesis by (simp add: text_handler_def)
  qed
  have lo: "now + days 365 - 1000 < to_store (now + days 365)"
    and hi: "to_store (now + days 365) \<le> now + days 365"
    using to_store_bounds [of "now + days 365"] by linarith+
  have cc: "cooldown_check t_check u s'' \<longleftrightarrow> to_store (now + days 365) + seconds 60 \<le> t_check"
    if "cooldown s'' u = Some (to_store (now + days 365))" for s'' t_check
    using that by (auto simp: cooldown_check_def)
  from st lo hi cc th show ?thesis by blast
qed

text \<open>
  X bans Y at the reading 1999 of the clock: the cooldown written is 365 days and one
  millisecond, and Y is still denied 365 days and 60 seconds after the epoch, also after
  the ledger has been emptied.
\<close>

theorem ban_expires_witness:
  "ban_handler (clock_at 1999) (reply_message 1 20 41 True) db_relayed =
     Handled (db_relayed\<lparr>cooldown := (cooldown db_relayed)(2 \<mapsto> days 365 + 1000)\<rparr>)
       [Reply (Banned 2)] \<and>
   reply_to_message (reply_message 1 20 41 True) =
     Some \<lparr>replied_message_id = 41, replied_is_bot = True\<rparr> \<and>
   to_store (clock_at 1999 (length (replied_docs \<lparr>replied_message_id = 41, replied_is_bot = True\<rparr>
      db_relayed) - 1) + days 365) = days 365 + 1000 \<and>
   text_handler env_ok (days 365 + seconds 60) (days 365 + seconds 60) (plain_message 2 21)
       (db_relayed\<lparr>cooldown := (cooldown db_relayed)(2 \<mapsto> days 365 + 1000), sent_messages := []\<rparr>) =
     Handled (db_relayed\<lparr>cooldown := (cooldown db_relayed)(2 \<mapsto> days 365 + 1000), sent_messages := []\<rparr>)
       [Reply PleaseWait]"
proof -
  let ?r = "\<lparr>replied_message_id = 41, replied_is_bot = True\<rparr>"
  let ?s' = "db_relayed\<lparr>cooldown := (cooldown db_relayed)(2 \<mapsto> days 365 + 1000)\<rparr>"
  let ?s'' = "db_relayed\<lparr>cooldown := (cooldown db_relayed)(2 \<mapsto> days 365 + 1000), sent_messages := []\<rparr>"
  let ?T = "to_store (clock_at 1999 (length (replied_docs ?r db_relayed) - 1) + days 365)"
  have h: "ban_handler (clock_at 1999) (reply_message 1 20 41 True) db_relayed =
             Handled ?s' [Reply (Banned 2)]"
    by (simp add: scenario_defs handler_defs)
  have h2: "reply_to_message (reply_message 1 20 41 True) = Some ?r"
    by (simp add: scenario_defs)
  have T: "?T = days 365 + 1000"
    by (simp add: scenario_defs handler_defs)
  note r = ban_expires [OF h h2]
  have f: "from_user_id (plain_message 2 21) = 2" by (simp add: plain_message_def)
  have c: "cooldown ?s'' 2 = Some ?T" unfolding T by simp
  have a: "\<not> is_admin 2 ?s''" "\<not> is_vip 2 ?s''"
    by (simp_all add: scenario_defs handler_defs)
  have lt: "days 365 + seconds 60 < ?T + seconds 60" unfolding T by simp
  from r f c a lt
  have b: "text_handler env_ok (days 365 + seconds 60) (days 365 + seconds 60)
             (plain_message 2 21) ?s'' = Handled ?s'' [Reply PleaseWait]" by blast
  from h h2 T b show ?thesis by blast
qed

text \<open>
  Claim C6: for a user who is neither admin nor VIP, admission allows the message if and
  only if the user has no cooldown record or at least 60 seconds have passed since the
  recorded time; a message that is not allowed gets the ``please wait'' reply and nothing
  else happens; a message that is allowed is broadcast on the store in which the user's
  cooldown is already the time of the write, and that is still the cooldown when the
  handler ends. The time of the write is the reading \<open>t_write\<close> of the clock in
  \<open>update_cooldown\<close> as the store keeps it: cut to whole milliseconds, less than a
  millisecond before \<open>t_write\<close>.
\<close>

theorem admission_decision:
  assumes "\<not> is_admin (from_user_id m) s" and "\<not> is_vip (from_user_id m) s"
  shows "(cooldown_check t_check (from_user_id m) s \<longleftrightarrow>
            (cooldown s (from_user_id m) = None \<or>
             (\<exists>t. cooldown s (from_user_id m) = Some t \<and> seconds 60 \<le> t_check - t))) \<and>
         (text_handler env t_check t_write m s = Handled s [Reply PleaseWait] \<longleftrightarrow>
            \<not> cooldown_check t_check (from_user_id m) s) \<and>
         (cooldown_check t_check (from_user_id m) s \<longrightarrow>
            text_handler env t_check t_write m s =
              broadcast_message env m (update_cooldown t_write (from_user_id m) s) \<and>
            cooldown (update_cooldown t_write (from_user_id m) s) (from_user_id m) =
              Some (to_store t_write) \<and>
            cooldown (outcome_db (text_handler env t_check t_write m s)) (from_user_id m) =
              Some (to_store t_write) \<and>
            to_store t_write \<le> t_write \<and> t_write < to_store t_write + 1000)"
proof -
  let ?u = "from_user_id m"
  let ?s1 = "update_cooldown t_write ?u s"
  have upd: "cooldown ?s1 ?u = Some (to_store t_write)" by (simp add: update_cooldown_def)
  have keeps: "cooldown (outcome_db (broadcast_message env m ?s1)) = cooldown ?s1"
    by (rule broadcast_message_cooldown)
  have nowait: "broadcast_message env m ?s1 \<noteq> Handled s [Reply PleaseWait]"
    by (rule broadcast_message_not_wait)
  have allowed: "text_handler env t_check t_write m s = broadcast_message env m ?s1"
    if "cooldown_check t_check ?u s"
    using assms that by (simp add: text_handler_def)
  have denied: "text_handler env t_check t_write m s = Handled s [Reply PleaseWait]"
    if "\<not> cooldown_check t_check ?u s"
    using assms that by (simp add: text_handler_def)
  show ?thesis
    using cooldown_check_iff [of t_check ?u s] upd keeps nowait allowed denied
      to_store_bounds [of t_write]
    by auto
qed

text \<open>
  Y, who has no cooldown record, sends a message at the reading 1999: it is broadcast
  and the cooldown kept is 1000. A message of Y at 60001500 is then allowed again.
\<close>

theorem admission_decision_witness:
  "\<not> is_admin (from_user_id (plain_message 2 21)) db_relayed \<and>
   \<not> is_vip (from_user_id (plain_message 2 21)) db_relayed \<and>
   cooldown_check 1999 (from_user_id (plain_message 2 21)) db_relayed \<and>
   cooldown (outcome_db (text_handler env_ok 1999 1999 (plain_message 2 21) db_relayed))
     (from_user_id (plain_message 2 21)) = Some 1000 \<and>
   outcome_actions (text_handler env_ok 1999 1999 (plain_message 2 21) db_relayed) =
     [Reply (SentTo 3)] \<and>
   cooldown_check 60001500 2
     (outcome_db (text_handler env_ok 1999 1999 (plain_message 2 21) db_relayed))"
proof -
  let ?m = "plain_message 2 21"
  have h1: "\<not> is_admin (from_user_id ?m) db_relayed"
    by (simp add: scenario_defs handler_defs)
  have h2: "\<not> is_vip (from_user_id ?m) db_relayed"
    by (simp add: scenario_defs handler_defs)
  note r = admission_decision [OF h1 h2, of 1999 env_ok 1999]
  have c: "cooldown db_relayed (from_user_id ?m) = None"
    by (simp add: scenario_defs)
  from r c have ok: "cooldown_check 1999 (from_user_id ?m) db_relayed"
    by blast
  have ts: "to_store 1999 = 1000" by (simp add: to_store_def)
  from r ok have "cooldown (outcome_db (text_handler env_ok 1999 1999 ?m db_relayed))
       (from_user_id ?m) = Some (to_store 1999)" by blast
  with ts have cd: "cooldown (outcome_db (text_handler env_ok 1999 1999 ?m db_relayed))
       (from_user_id ?m) = Some 1000" by simp
  have acts: "outcome_actions (text_handler env_ok 1999 1999 ?m db_relayed) = [Reply (SentTo 3)]"
    by (simp add: scenario_defs handler_defs)
  have f: "from_user_id ?m = 2" by (simp add: plain_message_def)
  from cd f have again: "cooldown_check 60001500 2
     (outcome_db (text_handler env_ok 1999 1999 ?m db_relayed))"
    by (simp add: cooldown_check_def seconds_def)
  from h1 h2 ok cd acts again show ?thesis by blast
qed

section \<open>Commands on a replied-to message\<close>

text \<open>
  Claim C7 says that an issuer of the delete command who is neither an admin nor the
  original sender of the replied-to message is denied. The denial sits inside the loop
  over the records the message resolves to (\<open>delete_handler_denied\<close>): when there is no
  record, it is never reached. Z, who is no admin, replies with the delete command to
  message 999 of the bot, of which the ledger has no record and Z is not the sender: the
  reply is that the message was deleted for all users.
\<close>

theorem delete_not_denied:
  "\<not> is_admin (from_user_id (reply_message 3 30 999 True)) db_relayed \<and>
   replied_docs \<lparr>replied_message_id = 999, replied_is_bot = True\<rparr> db_relayed = [] \<and>
   delete_handler env_ok (reply_message 3 30 999 True) db_relayed =
     Handled db_relayed [Reply Deleted] \<and>
   delete_handler env_ok (reply_message 3 30 999 True) db_relayed \<noteq>
     Handled db_relayed [Reply NoRightsDelete]"
  by (simp add: scenario_defs handler_defs)

text \<open>
  For the same reason a denial can come after deletes. On a ledger where the copy of Z's
  message 8 in X's chat and the copy of Y's message 7 in Z's chat both have the id 50, Z
  replies with the delete command to the copy 50 of Y's message: the first record found
  is Z's own, so its copy is deleted, and the second is Y's, so Z is denied.
\<close>

lemma delete_then_denied:
  "delete_handler env_ok (reply_message 3 30 50 True) db_same_copy_id =
     Handled db_same_copy_id [DeleteMessage 1 50, Reply NoRightsDelete]"
  by (simp add: scenario_defs handler_defs)

text \<open>
  Claim C8 says that delete, ban and unban answer ``something went wrong'' and leave the
  store unchanged when the replied-to message resolves to no record. Ban and unban do
  (\<open>ban_handler_not_found\<close>, \<open>unban_handler_not_found\<close>). Delete does not: Y replies with
  the delete command to message 999 of the bot, which has no record; the store is
  unchanged, and the reply is that the message was deleted for all users.
\<close>

theorem delete_not_found_reply:
  "replied_docs \<lparr>replied_message_id = 999, replied_is_bot = True\<rparr> db_relayed = [] \<and>
   delete_handler env_ok (reply_message 2 30 999 True) db_relayed =
     Handled db_relayed [Reply Deleted] \<and>
   ban_handler (clock_at 0) (reply_message 2 30 999 True) db_relayed =
     Handled db_relayed [Reply WentWrong] \<and>
   unban_handler (clock_at 0) (reply_message 2 30 999 True) db_relayed =
     Handled db_relayed [Reply WentWrong]"
  by (simp add: scenario_defs handler_defs)

section \<open>Faults\<close>

text \<open>
  Claim C9 says that no event ends in an unhandled fault, also when the sender has no
  directory entry or a privileged command has malformed arguments. The owner 1 sends
  \<open>/admin abc\<close>: \<open>int\<close> raises \<open>ValueError\<close>, with no reply and no change of the store.
  User 9, who has no directory entry, sends a message: the cooldown is written, then the
  broadcast raises \<open>TypeError\<close>, with no reply. User 9 edits a message: \<open>TypeError\<close>, with
  no reply and no change.
\<close>

theorem handler_faults:
  "admin_handler env_ok ((plain_message 1 5)\<lparr>msg_args := lit ''abc''\<rparr>) db_XYZ =
     Faulted ValueError db_XYZ [] \<and>
   vip_handler env_ok (plain_message 1 5) db_XYZ = Faulted ValueError db_XYZ [] \<and>
   text_handler env_ok 0 0 (plain_message 9 5) db_XYZ =
     Faulted TypeError (update_cooldown 0 9 db_XYZ) [] \<and>
   edit_handler env_ok (plain_message 9 5) db_XYZ = Faulted TypeError db_XYZ []"
  by (simp add: scenario_defs handler_defs admin_handler_def vip_handler_def edit_handler_def
      int_defs)

text \<open>
  An id that the store cannot encode faults as well, after \<open>int\<close> has accepted it.
\<close>

lemma admin_handler_overflow:
  "admin_handler env_ok ((plain_message 1 5)\<lparr>msg_args := lit ''9223372036854775808''\<rparr>) db_XYZ =
     Faulted OverflowError db_XYZ []"
  by (simp add: scenario_defs admin_handler_def int_defs)

section \<open>The records a broadcast writes\<close>

text \<open>
  Claim C10 says that every record written during fan-out has the recipient's copy id in
  both \<open>sender_message_id\<close> and \<open>receiver_message_id\<close>, and concludes that the records of
  one broadcast do not share a sender copy id. The first part holds; the conclusion
  depends on the transport. X broadcasts message 10 to X, Y and Z over a transport that
  gives every copy the id 500: the three records share the sender copy id 500.
\<close>

theorem relay_record_copy_ids_counterexample:
  "map sender_message_id
     (sent_messages (outcome_db (broadcast_message env_same_id (plain_message 1 10) db_XYZ))) =
     [500, 500, 500] \<and>
   map receiver_id
     (sent_messages (outcome_db (broadcast_message env_same_id (plain_message 1 10) db_XYZ))) =
     [1, 2, 3]"
  by (simp add: scenario_defs handler_defs)

text \<open>
  Claim C10, amended: whatever the transport does, a broadcast only appends to the
  ledger, and every record it appends is the record of a copy: there is a recipient of
  the directory for whose chat the transport was asked to copy the message and returned
  an id, and the record holds that id in both \<open>sender_message_id\<close> and
  \<open>receiver_message_id\<close>, the recipient in \<open>receiver_id\<close>, the sender in \<open>sender_id\<close> and
  the id of the message in \<open>original_message_id\<close>. So the records of one broadcast have
  \<open>sender_id\<close> and \<open>original_message_id\<close> in common, and two of them have the same
  sender copy id exactly when the transport gave the two copies the same id.
\<close>

theorem relay_record_copy_ids:
  "\<exists>new. sent_messages (outcome_db (broadcast_message env m s)) = sent_messages s @ new \<and>
     (\<forall>d\<in>set new. \<exists>u\<in>set (users s). \<exists>markup l. copy_record env m markup u l d) \<and>
     (\<forall>d\<in>set new. \<forall>e\<in>set new.
        sender_id d = sender_id e \<and> original_message_id d = original_message_id e \<and>
        (sender_message_id d = sender_message_id e \<longleftrightarrow>
         receiver_message_id d = receiver_message_id e))"
proof (cases "find_one_user (from_user_id m) s")
  case None
  then show ?thesis by (simp add: broadcast_message_fault)
next
  case (Some u)
  from broadcast_message_shape [OF Some, of env] obtain new where
    new: "sent_messages (outcome_db (broadcast_message env m s)) = sent_messages s @ new"
      "\<forall>d\<in>set new. \<exists>v\<in>set (users s). \<exists>markup l. copy_record env m markup v l d"
    by auto
  from new(2) have "\<forall>d\<in>set new. \<forall>e\<in>set new.
        sender_id d = sender_id e \<and> original_message_id d = original_message_id e \<and>
        (sender_message_id d = sender_message_id e \<longleftrightarrow>
         receiver_message_id d = receiver_message_id e)"
    by (metis copy_record_def)
  with new show ?thesis by blast
qed

text \<open>
  X broadcasts message 10 to X, Y and Z: the three records have the copy ids 101, 102
  and 103 that the transport returned, in both fields.
\<close>

theorem relay_record_copy_ids_witness:
  "sent_messages (outcome_db (broadcast_message env_ok (plain_message 1 10) db_XYZ)) =
     [\<lparr>sender_id = 1, sender_message_id = 101, receiver_id = 1,
       receiver_message_id = 101, original_message_id = 10\<rparr>,
      \<lparr>sender_id = 1, sender_message_id = 102, receiver_id = 2,
       receiver_message_id = 102, original_message_id = 10\<rparr>,
      \<lparr>sender_id = 1, sender_message_id = 103, receiver_id = 3,
       receiver_message_id = 103, original_message_id = 10\<rparr>] \<and>
   receiver_message_id
     (sent_messages (outcome_db (broadcast_message env_ok (plain_message 1 10) db_XYZ)) ! 1) =
   sender_message_id
     (sent_messages (outcome_db (broadcast_message env_ok (plain_message 1 10) db_XYZ)) ! 1) \<and>
   copy_message env_ok
     (copy_request_for (plain_message 1 10) \<lparr>user_id = 2, admin = False, vip = False\<rparr> None db_XYZ) =
   Ok (sender_message_id
     (sent_messages (outcome_db (broadcast_message env_ok (plain_message 1 10) db_XYZ)) ! 1))"
proof -
  let ?led = "sent_messages (outcome_db (broadcast_message env_ok (plain_message 1 10) db_XYZ))"
  have ev: "?led =
     [\<lparr>sender_id = 1, sender_message_id = 101, receiver_id = 1,
       receiver_message_id = 101, original_message_id = 10\<rparr>,
      \<lparr>sender_id = 1, sender_message_id = 102, receiver_id = 2,
       receiver_message_id = 102, original_message_id = 10\<rparr>,
      \<lparr>sender_id = 1, sender_message_id = 103, receiver_id = 3,
       receiver_message_id = 103, original_message_id = 10\<rparr>]"
    by (simp add: scenario_defs handler_defs)
  have old: "sent_messages db_XYZ = []" by (simp add: scenario_defs)
  from relay_record_copy_ids [of env_ok "plain_message 1 10" db_XYZ] old
  have all: "\<forall>d\<in>set ?led. \<exists>u\<in>set (users db_XYZ). \<exists>markup l.
               copy_record env_ok (plain_message 1 10) markup u l d" by auto
  have "?led ! 1 \<in> set ?led" by (simp add: ev)
  with all have "\<exists>u\<in>set (users db_XYZ). \<exists>markup l.
               copy_record env_ok (plain_message 1 10) markup u l (?led ! 1)" by blast
  then have eq: "receiver_message_id (?led ! 1) = sender_message_id (?led ! 1)"
    by (auto simp: copy_record_def)
  have tr: "copy_message env_ok
     (copy_request_for (plain_message 1 10) \<lparr>user_id = 2, admin = False, vip = False\<rparr> None db_XYZ) =
     Ok (sender_message_id (?led ! 1))"
    by (simp add: ev) (simp add: scenario_defs handler_defs)
  from ev eq tr show ?thesis by blast
qed

end
